theory Spec2Isabelle
  imports Main "HOL-Library.Sublist" "HOL-Library.AList"
begin

section \<open>Strings as the extractor uses them\<close>

text \<open>
  File names and manifest texts are \<^typ>\<open>string\<close>s. The model covers ASCII text:
  \<open>str.lower\<close> and \<open>str.upper\<close> change the 26 letters and leave every other
  character alone.
\<close>

definition lower_char :: "char \<Rightarrow> char" where
  "lower_char c =
     (if 65 \<le> (of_char c :: nat) \<and> (of_char c :: nat) \<le> 90
      then char_of ((of_char c :: nat) + 32) else c)"

definition upper_char :: "char \<Rightarrow> char" where
  "upper_char c =
     (if 97 \<le> (of_char c :: nat) \<and> (of_char c :: nat) \<le> 122
      then char_of ((of_char c :: nat) - 32) else c)"

definition lower :: "string \<Rightarrow> string" where
  "lower s = map lower_char s"

definition upper :: "string \<Rightarrow> string" where
  "upper s = map upper_char s"

definition startswith :: "string \<Rightarrow> string \<Rightarrow> bool" where
  "startswith s p = prefix p s"

definition endswith :: "string \<Rightarrow> string \<Rightarrow> bool" where
  "endswith s p = suffix p s"

text \<open>
  \<open>s.replace(old, new)\<close>: scan from the left, replace each occurrence of \<open>old\<close>
  and continue behind it. The source only calls it with a non-empty \<open>old\<close>.
\<close>

function replace :: "string \<Rightarrow> string \<Rightarrow> string \<Rightarrow> string" where
  "replace old new [] = []"
| "replace old new (c # cs) =
     (if old \<noteq> [] \<and> prefix old (c # cs)
      then new @ replace old new (drop (length old) (c # cs))
      else c # replace old new cs)"
  by pat_completeness auto
termination
  by (relation "measure (\<lambda>(old, new, s). length s)") auto

section \<open>The file system\<close>

text \<open>
  A path is the list of its components; \<open>p / name\<close> appends one component. The
  tree's root stands for the working directory, and every path of a run is read from
  there. A directory lists its entries in the order the operating system returns them.
\<close>

type_synonym path = "string list"

datatype node = File string | Dir "(string \<times> node) list"

fun is_Dir :: "node \<Rightarrow> bool" where
  "is_Dir (Dir es) = True"
| "is_Dir (File c) = False"

fun lookup :: "node \<Rightarrow> path \<Rightarrow> node option" where
  "lookup n [] = Some n"
| "lookup (File c) (x # p) = None"
| "lookup (Dir es) (x # p) =
     (case map_of es x of None \<Rightarrow> None | Some n \<Rightarrow> lookup n p)"

definition exists :: "node \<Rightarrow> path \<Rightarrow> bool" where
  "exists t p = (lookup t p \<noteq> None)"

definition is_dir :: "node \<Rightarrow> path \<Rightarrow> bool" where
  "is_dir t p = (case lookup t p of Some (Dir es) \<Rightarrow> True | _ \<Rightarrow> False)"

text \<open>
  \<open>put t p v\<close> stores \<open>v\<close> at \<open>p\<close>, replacing what is there; the parent of
  \<open>p\<close> has to be a directory, otherwise nothing can be stored (\<open>None\<close>).
\<close>

fun put :: "node \<Rightarrow> path \<Rightarrow> node \<Rightarrow> node option" where
  "put n [] v = Some v"
| "put (File c) (x # p) v = None"
| "put (Dir es) (x # p) v =
     (if p = [] then Some (Dir (AList.update x v es))
      else (case map_of es x of
              None \<Rightarrow> None
            | Some n \<Rightarrow> (case put n p v of
                          None \<Rightarrow> None
                        | Some n' \<Rightarrow> Some (Dir (AList.update x n' es)))))"

text \<open>\<open>remove t p\<close> deletes the entry \<open>p\<close> with everything below it.\<close>

fun remove :: "node \<Rightarrow> path \<Rightarrow> node" where
  "remove n [] = n"
| "remove (File c) (x # p) = File c"
| "remove (Dir es) (x # p) =
     (if p = [] then Dir (AList.delete x es)
      else (case map_of es x of
              None \<Rightarrow> Dir es
            | Some n \<Rightarrow> Dir (AList.update x (remove n p) es)))"

text \<open>
  \<open>os.walk(top)\<close>, top-down: the directory itself with the names of its
  sub-directories and of its other entries, then each sub-directory in turn. A top that
  is no directory yields nothing. The walk is taken on the tree as it is when the loop
  starts.
\<close>

fun walk :: "path \<Rightarrow> node \<Rightarrow> (path \<times> string list \<times> string list) list" where
  "walk root (File c) = []"
| "walk root (Dir es) =
     (root, map fst (filter (\<lambda>e. is_Dir (snd e)) es),
            map fst (filter (\<lambda>e. \<not> is_Dir (snd e)) es))
     # concat (map (\<lambda>e. walk (root @ [fst e]) (snd e)) (filter (\<lambda>e. is_Dir (snd e)) es))"

definition os_walk :: "node \<Rightarrow> path \<Rightarrow> (path \<times> string list \<times> string list) list" where
  "os_walk t p = (case lookup t p of None \<Rightarrow> [] | Some n \<Rightarrow> walk p n)"

text \<open>
  \<open>Path.mkdir\<close>. With \<open>parents\<close> every missing ancestor is created; a file in
  the way raises.
\<close>

datatype error =
    CalledProcessError | OSError | FileExistsError | FileNotFoundError
  | NotADirectoryError | IsADirectoryError

fun mkdirs :: "node \<Rightarrow> path \<Rightarrow> error + node" where
  "mkdirs (File c) p = Inl (if p = [] then FileExistsError else NotADirectoryError)"
| "mkdirs (Dir es) [] = Inr (Dir es)"
| "mkdirs (Dir es) (x # p) =
     (case map_of es x of
        None \<Rightarrow> (case mkdirs (Dir []) p of
                   Inl e \<Rightarrow> Inl e
                 | Inr n \<Rightarrow> Inr (Dir (es @ [(x, n)])))
      | Some n \<Rightarrow> (case mkdirs n p of
                    Inl e \<Rightarrow> Inl e
                  | Inr n' \<Rightarrow> Inr (Dir (AList.update x n' es))))"

definition mkdir :: "bool \<Rightarrow> bool \<Rightarrow> node \<Rightarrow> path \<Rightarrow> error + node" where
  "mkdir parents exist_ok t p =
     (if exists t p then (if exist_ok \<and> is_dir t p then Inr t else Inl FileExistsError)
      else if parents then mkdirs t p
      else (case put t p (Dir []) of None \<Rightarrow> Inl FileNotFoundError | Some t' \<Rightarrow> Inr t'))"

text \<open>\<open>shutil.rmtree\<close> removes a directory tree and raises on anything else.\<close>

definition rmtree :: "node \<Rightarrow> path \<Rightarrow> error + node" where
  "rmtree t p =
     (case lookup t p of
        None \<Rightarrow> Inl FileNotFoundError
      | Some (File c) \<Rightarrow> Inl NotADirectoryError
      | Some (Dir es) \<Rightarrow> Inr (remove t p))"

text \<open>\<open>open(p, "w")\<close> followed by one write of the whole text.\<close>

definition write_text :: "node \<Rightarrow> path \<Rightarrow> string \<Rightarrow> error + node" where
  "write_text t p c =
     (case lookup t p of
        Some (Dir es) \<Rightarrow> Inl IsADirectoryError
      | _ \<Rightarrow> (case put t p (File c) of None \<Rightarrow> Inl FileNotFoundError | Some t' \<Rightarrow> Inr t'))"

text \<open>\<open>open(p, "r").read()\<close>.\<close>

definition read_text :: "node \<Rightarrow> path \<Rightarrow> error + string" where
  "read_text t p =
     (case lookup t p of
        None \<Rightarrow> Inl FileNotFoundError
      | Some (Dir es) \<Rightarrow> Inl IsADirectoryError
      | Some (File c) \<Rightarrow> Inr c)"

section \<open>External processes and the state of a run\<close>

text \<open>
  Both external tools are called as \<open>[exe, "-o", output, input]\<close>. What a tool does
  is not part of the program: the process either cannot be launched, or it exits with a
  status after possibly writing something at its output path. \<open>subprocess\<close> is the
  tool, a function of the file system and the command line.

  The state of a run is the file system and the trace of what the run printed and which
  processes it ran, in order. \<open>DoneMsg\<close> stands for the three closing lines.
\<close>

datatype cmd = Cmd (exe: string) (out_arg: path) (in_arg: path)

datatype proc_result = LaunchFailed | Exited int "node option"

datatype msg =
    ErrorParsingVdf | ErrorReadingManifest path
  | Extracting string | FailedToExtract path | ErrorRunningRpfCli
  | FailedToConvert path | Processing string path
  | AttemptingAutoDetect | SteamFoundAt path | GtaFoundAt path | ErrorRpfCliRequired
  | ScanningForRadio | GtaNotFound | SteamNotFound | ErrorProvideInput
  | InputDirNotFound | CleaningUp | DoneMsg path | CouldNotFindSteam

datatype event = Print msg | Ran cmd proc_result

record state =
  fs :: node
  trace :: "event list"

type_synonym 'a result = "(error \<times> state) + ('a \<times> state)"

definition print :: "msg \<Rightarrow> state \<Rightarrow> state" where
  "print m s = s\<lparr>trace := trace s @ [Print m]\<rparr>"

text \<open>\<open>subprocess.run(cmd, check=True, ...)\<close>\<close>

definition subprocess_run ::
  "(node \<Rightarrow> cmd \<Rightarrow> proc_result) \<Rightarrow> cmd \<Rightarrow> state \<Rightarrow> unit result" where
  "subprocess_run subprocess c s =
     (case subprocess (fs s) c of
        LaunchFailed \<Rightarrow> Inl (OSError, s\<lparr>trace := trace s @ [Ran c LaunchFailed]\<rparr>)
      | Exited code w \<Rightarrow>
          (let t' = (case w of
                       None \<Rightarrow> fs s
                     | Some n \<Rightarrow> (case put (fs s) (out_arg c) n of None \<Rightarrow> fs s | Some t \<Rightarrow> t));
               s' = s\<lparr>fs := t', trace := trace s @ [Ran c (Exited code w)]\<rparr>
           in if code \<noteq> 0 then Inl (CalledProcessError, s') else Inr ((), s')))"

section \<open>The extractor\<close>

definition extract_rpf ::
  "(node \<Rightarrow> cmd \<Rightarrow> proc_result) \<Rightarrow> string \<Rightarrow> path \<Rightarrow> path \<Rightarrow> state \<Rightarrow> bool \<times> state" where
  "extract_rpf subprocess rpf_cli_path rpf_file output_dir s =
     (case subprocess_run subprocess (Cmd rpf_cli_path output_dir rpf_file)
             (print (Extracting (last rpf_file)) s) of
        Inr (u, s') \<Rightarrow> (True, s')
      | Inl (e, s') \<Rightarrow>
          (if e = CalledProcessError then (False, print (FailedToExtract rpf_file) s')
           else (False, print ErrorRunningRpfCli s')))"

definition convert_awc ::
  "(node \<Rightarrow> cmd \<Rightarrow> proc_result) \<Rightarrow> string \<Rightarrow> path \<Rightarrow> path \<Rightarrow> state \<Rightarrow> bool result" where
  "convert_awc subprocess vgmstream_path input_path output_path s =
     (case subprocess_run subprocess (Cmd vgmstream_path output_path input_path) s of
        Inr (u, s') \<Rightarrow> Inr (True, s')
      | Inl (e, s') \<Rightarrow>
          (if e = CalledProcessError then Inr (False, print (FailedToConvert input_path) s')
           else Inl (e, s')))"

definition info_json :: string where
  "info_json = ''{'' @ [CHR 0x0A] @ ''    \"generation\": 5,'' @ [CHR 0x0A]
     @ ''    \"name\": \"Grand Theft Auto V\"'' @ [CHR 0x0A] @ ''}''"

definition create_station_info :: "path \<Rightarrow> string \<Rightarrow> state \<Rightarrow> unit result" where
  "create_station_info output_dir station_name s =
     (let group_dir = output_dir; info_path = group_dir @ [''stationGroupInfo.json'']
      in if \<not> exists (fs s) info_path
         then (case write_text (fs s) info_path info_json of
                 Inl e \<Rightarrow> Inl (e, s)
               | Inr t' \<Rightarrow> Inr ((), s\<lparr>fs := t'\<rparr>))
         else Inr ((), s))"

text \<open>A \<open>for\<close> loop whose body may raise: the first exception ends the loop.\<close>

fun for_each :: "('a \<Rightarrow> state \<Rightarrow> unit result) \<Rightarrow> 'a list \<Rightarrow> state \<Rightarrow> unit result" where
  "for_each body [] s = Inr ((), s)"
| "for_each body (x # xs) s =
     (case body x s of Inl r \<Rightarrow> Inl r | Inr (u, s') \<Rightarrow> for_each body xs s')"

definition output_filename :: "string \<Rightarrow> string" where
  "output_filename file = replace ''.AWC'' ''.wav'' (replace ''.awc'' ''.wav'' file)"

definition convert_file ::
  "(node \<Rightarrow> cmd \<Rightarrow> proc_result) \<Rightarrow> string \<Rightarrow> path \<Rightarrow> path \<Rightarrow> string
     \<Rightarrow> state \<Rightarrow> unit result" where
  "convert_file subprocess vgmstream_path songs_output_dir root file s =
     (if endswith (lower file) ''.awc''
      then (let awc_path = root @ [file];
                output_wav_path = songs_output_dir @ [output_filename file]
            in case convert_awc subprocess vgmstream_path awc_path output_wav_path s of
                 Inl r \<Rightarrow> Inl r
               | Inr (b, s') \<Rightarrow> Inr ((), s'))
      else Inr ((), s))"

definition process_station_folder ::
  "(node \<Rightarrow> cmd \<Rightarrow> proc_result) \<Rightarrow> string \<Rightarrow> path \<Rightarrow> path \<Rightarrow> string
     \<Rightarrow> state \<Rightarrow> unit result" where
  "process_station_folder subprocess vgmstream_path station_folder_path output_dir station_name s =
     (let s0 = print (Processing station_name station_folder_path) s;
          station_output_dir = output_dir @ [station_name];
          songs_output_dir = station_output_dir @ [''Songs'']
      in case mkdir True True (fs s0) station_output_dir of
           Inl e \<Rightarrow> Inl (e, s0)
         | Inr t1 \<Rightarrow>
            (case mkdir True True t1 songs_output_dir of
               Inl e \<Rightarrow> Inl (e, s0\<lparr>fs := t1\<rparr>)
             | Inr t2 \<Rightarrow>
                 for_each
                   (\<lambda>(root, dirs, files).
                      for_each (convert_file subprocess vgmstream_path songs_output_dir root) files)
                   (os_walk t2 station_folder_path)
                   (s0\<lparr>fs := t2\<rparr>)))"

section \<open>Locating the installation\<close>

text \<open>
  \<open>re\<close> on the two patterns of the source, \<open>"path"\s+"(.+?)"\<close> and
  \<open>"installdir"\s+"(.+?)"\<close>. At one position the match is forced: the quoted key,
  the longest run of white space (at least one character), a quote, one character that
  is no newline, and then everything up to the next quote, which must come before any
  newline. \<open>match_pair\<close> returns the group and the text behind the match.
\<close>

definition is_space :: "char \<Rightarrow> bool" where
  "is_space c = ((of_char c :: nat) \<in> {9, 10, 11, 12, 13, 28, 29, 30, 31, 32})"

definition match_value :: "string \<Rightarrow> (string \<times> string) option" where
  "match_value s =
     (case s of
        q # c0 # r \<Rightarrow>
          (if q = CHR 0x22 \<and> c0 \<noteq> CHR 0x0A
           then (case dropWhile (\<lambda>c. c \<noteq> CHR 0x22 \<and> c \<noteq> CHR 0x0A) r of
                   [] \<Rightarrow> None
                 | c # r' \<Rightarrow>
                     (if c = CHR 0x22
                      then Some (c0 # takeWhile (\<lambda>c. c \<noteq> CHR 0x22 \<and> c \<noteq> CHR 0x0A) r, r')
                      else None))
           else None)
      | _ \<Rightarrow> None)"

definition match_pair :: "string \<Rightarrow> string \<Rightarrow> (string \<times> string) option" where
  "match_pair key s =
     (let lit = CHR 0x22 # key @ [CHR 0x22]
      in if prefix lit s
         then (let r = drop (length lit) s
               in if takeWhile is_space r = [] then None
                  else match_value (dropWhile is_space r))
         else None)"

lemma match_value_shorter: "match_value s = Some (v, r) \<Longrightarrow> length r < length s"
proof -
  assume m: "match_value s = Some (v, r)"
  then obtain q c0 u where s: "s = q # c0 # u"
    by (cases s; cases "tl s") (auto simp: match_value_def)
  from m s obtain c where "dropWhile (\<lambda>c. c \<noteq> CHR 0x22 \<and> c \<noteq> CHR 0x0A) u = c # r"
    by (auto simp: match_value_def split: if_splits list.splits)
  then have "length r < length u"
    using length_dropWhile_le [of "\<lambda>c. c \<noteq> CHR 0x22 \<and> c \<noteq> CHR 0x0A" u] by simp
  with s show ?thesis by simp
qed

lemma match_pair_shorter: "match_pair key s = Some (v, r) \<Longrightarrow> length r < length s"
proof -
  assume m: "match_pair key s = Some (v, r)"
  let ?lit = "CHR 0x22 # key @ [CHR 0x22]"
  from m have "match_value (dropWhile is_space (drop (length ?lit) s)) = Some (v, r)"
    by (auto simp: match_pair_def Let_def split: if_splits)
  then have "length r < length (dropWhile is_space (drop (length ?lit) s))"
    by (rule match_value_shorter)
  also have "\<dots> \<le> length (drop (length ?lit) s)" by (rule length_dropWhile_le)
  also have "\<dots> \<le> length s" by simp
  finally show ?thesis .
qed

text \<open>\<open>re.findall\<close>: all matches from left to right, each search resuming behind the last match.\<close>

function findall :: "string \<Rightarrow> string \<Rightarrow> string list" where
  "findall key [] = []"
| "findall key (c # cs) =
     (case match_pair key (c # cs) of
        Some (v, r) \<Rightarrow> v # findall key r
      | None \<Rightarrow> findall key cs)"
  by pat_completeness auto
termination
  by (relation "measure (\<lambda>(key, s). length s)") (auto dest: match_pair_shorter)

text \<open>\<open>re.search\<close> followed by \<open>group(1)\<close>: the leftmost match.\<close>

fun search :: "string \<Rightarrow> string \<Rightarrow> string option" where
  "search key [] = None"
| "search key (c # cs) =
     (case match_pair key (c # cs) of
        Some (v, r) \<Rightarrow> Some v
      | None \<Rightarrow> search key cs)"

definition GTA5_APP_ID :: string where
  "GTA5_APP_ID = ''271590''"

text \<open>
  \<open>Path(path_str)\<close> is pathlib's reading of a string, taken as the parameter
  \<open>Path\<close>. \<open>list(set(xs))\<close> keeps one copy of each element, in an order Python does
  not specify; the model keeps the order of \<open>remdups\<close>.
\<close>

definition parse_library_folders ::
  "(string \<Rightarrow> path) \<Rightarrow> path \<Rightarrow> state \<Rightarrow> path list \<times> state" where
  "parse_library_folders Path steam_path s =
     (let library_folders = [steam_path];
          vdf_path = steam_path @ [''steamapps'', ''libraryfolders.vdf'']
      in if \<not> exists (fs s) vdf_path then (library_folders, s)
         else (case read_text (fs s) vdf_path of
                 Inl e \<Rightarrow> (remdups library_folders, print ErrorParsingVdf s)
               | Inr content \<Rightarrow>
                   (remdups (library_folders
                       @ map (\<lambda>m. Path (replace [CHR 0x5C, CHR 0x5C] [CHR 0x5C] m))
                           (findall ''path'' content)), s)))"

fun find_gta5_install :: "path list \<Rightarrow> state \<Rightarrow> path option \<times> state" where
  "find_gta5_install [] s = (None, s)"
| "find_gta5_install (lib # libs) s =
     (let app_manifest = lib @ [''steamapps'', ''appmanifest_'' @ GTA5_APP_ID @ ''.acf'']
      in if exists (fs s) app_manifest
         then (case read_text (fs s) app_manifest of
                 Inl e \<Rightarrow> find_gta5_install libs (print (ErrorReadingManifest app_manifest) s)
               | Inr content \<Rightarrow>
                   (case search ''installdir'' content of
                      Some install_dir_name \<Rightarrow>
                        (let game_path = lib @ [''steamapps'', ''common'', install_dir_name]
                         in if exists (fs s) game_path then (Some game_path, s)
                            else find_gta5_install libs s)
                    | None \<Rightarrow> find_gta5_install libs s))
         else find_gta5_install libs s)"

section \<open>The run\<close>

definition STATION_MAP :: "(string \<times> string) list" where
  "STATION_MAP =
    [(''RADIO_01_CLASS_ROCK'', ''Los Santos Rock Radio''),
     (''RADIO_02_POP'', ''Non-Stop-Pop FM''),
     (''RADIO_03_HIPHOP_NEW'', ''Radio Los Santos''),
     (''RADIO_04_PUNK'', ''Channel X''),
     (''RADIO_05_TALK_01'', ''West Coast Talk Radio''),
     (''RADIO_06_COUNTRY'', ''Rebel Radio''),
     (''RADIO_07_DANCE_01'', ''Soulwax FM''),
     (''RADIO_08_MEXICAN'', ''East Los FM''),
     (''RADIO_09_HIPHOP_OLD'', ''West Coast Classics''),
     (''RADIO_11_TALK_02'', ''Blaine County Radio''),
     (''RADIO_12_REGGAE'', ''The Blue Ark''),
     (''RADIO_13_JAZZ'', ''Worldwide FM''),
     (''RADIO_14_DANCE_02'', ''FlyLo FM''),
     (''RADIO_15_MOTOWN'', ''The Lowdown 91.1''),
     (''RADIO_16_SILVERLAKE'', ''Radio Mirror Park''),
     (''RADIO_17_FUNK'', ''Space 103.2''),
     (''RADIO_18_90S_ROCK'', ''Vinewood Boulevard Radio''),
     (''RADIO_19_USER'', ''Self Radio''),
     (''RADIO_20_THELAB'', ''The Lab''),
     (''RADIO_21_DLC_XM17'', ''Blonded Los Santos 97.8 FM''),
     (''RADIO_22_DLC_BATTLE_MIX1'', ''Los Santos Underground Radio''),
     (''RADIO_23_DLC_XM19_RADIO'', ''iFruit Radio''),
     (''RADIO_27_DLC_PRP2022_RADIO'', ''Motomami Los Santos'')]"

text \<open>
  The command line after \<open>parse_args\<close>. An option that was not given, or given empty,
  is \<open>None\<close>: the source tests these options for truth only. \<open>args.input\<close>
  and \<open>args.output\<close> are held as the paths \<open>Path(...)\<close> makes of them.
\<close>

record args =
  arg_input :: "path option"
  arg_output :: path
  vgmstream :: string
  rpf_cli :: "string option"
  auto_detect :: bool

text \<open>
  What a run finds outside the file system: the external tools, the registry value
  \<open>get_steam_path\<close> reads (\<open>None\<close> when the lookup raises), and pathlib's \<open>Path\<close>.
\<close>

record env =
  subprocess :: "node \<Rightarrow> cmd \<Rightarrow> proc_result"
  registry_steam_path :: "path option"
  Path :: "string \<Rightarrow> path"

definition get_steam_path :: "env \<Rightarrow> state \<Rightarrow> path option \<times> state" where
  "get_steam_path E s =
     (case registry_steam_path E of
        Some steam_path \<Rightarrow> (Some steam_path, s)
      | None \<Rightarrow> (None, print CouldNotFindSteam s))"

definition temp_extract_dir :: path where
  "temp_extract_dir = [''temp_gta5_extraction'']"

text \<open>Lines 201 to 208: the archives of the base game, and what the loop does with one.\<close>

definition base_file :: "env \<Rightarrow> string \<Rightarrow> path \<Rightarrow> string \<Rightarrow> state \<Rightarrow> state" where
  "base_file E rpf_cli_path base_sfx_path rpf_name s =
     (let rpf_file = base_sfx_path @ [rpf_name @ ''.rpf'']
      in if exists (fs s) rpf_file
         then (let extract_to = temp_extract_dir @ [rpf_name]
               in snd (extract_rpf (subprocess E) rpf_cli_path rpf_file extract_to s))
         else s)"

definition extract_base :: "env \<Rightarrow> string \<Rightarrow> path \<Rightarrow> state \<Rightarrow> state" where
  "extract_base E rpf_cli_path gta5_path s =
     (let base_sfx_path = gta5_path @ [''x64'', ''audio'', ''sfx'']
      in if exists (fs s) base_sfx_path
         then fold (base_file E rpf_cli_path base_sfx_path) (map fst STATION_MAP) s
         else s)"

text \<open>Lines 216 to 224: what the scan of the expansion packs does with one file.\<close>

definition dlc_file :: "env \<Rightarrow> string \<Rightarrow> path \<Rightarrow> string \<Rightarrow> state \<Rightarrow> state" where
  "dlc_file E rpf_cli_path root file s =
     (if startswith (upper file) ''RADIO_'' \<and> endswith (lower file) ''.rpf''
      then (let rpf_name_no_ext = upper (take (length file - 4) file)
            in if rpf_name_no_ext \<in> set (map fst STATION_MAP)
               then (let rpf_file = root @ [file];
                         extract_to = temp_extract_dir @ [rpf_name_no_ext]
                     in if \<not> exists (fs s) extract_to
                        then snd (extract_rpf (subprocess E) rpf_cli_path rpf_file extract_to s)
                        else s)
               else s)
      else s)"

definition extract_dlc :: "env \<Rightarrow> string \<Rightarrow> path \<Rightarrow> state \<Rightarrow> state" where
  "extract_dlc E rpf_cli_path gta5_path s =
     (let dlc_root = gta5_path @ [''update'', ''x64'', ''dlcpacks'']
      in if exists (fs s) dlc_root
         then fold (\<lambda>(root, dirs, files). fold (dlc_file E rpf_cli_path root) files)
                (os_walk (fs s) dlc_root) s
         else s)"

text \<open>
  Lines 173 to 235. The result is \<open>None\<close> where the source returns early, and
  otherwise the input directory with the temporary directory, if one was made.
\<close>

definition resolve_input :: "env \<Rightarrow> args \<Rightarrow> state \<Rightarrow> (path \<times> path option) option result" where
  "resolve_input E a s =
     (case arg_input a of
        Some input_dir \<Rightarrow> Inr (Some (input_dir, None), s)
      | None \<Rightarrow>
         (if auto_detect a
          then (case get_steam_path E (print AttemptingAutoDetect s) of
             (None, s1) \<Rightarrow> Inr (None, print SteamNotFound s1)
           | (Some steam_path, s1) \<Rightarrow>
              (case parse_library_folders (Path E) steam_path (print (SteamFoundAt steam_path) s1) of
                 (libs, s2) \<Rightarrow>
                  (case find_gta5_install libs s2 of
                     (None, s3) \<Rightarrow> Inr (None, print GtaNotFound s3)
                   | (Some gta5_path, s3) \<Rightarrow>
                      (case rpf_cli a of
                         None \<Rightarrow> Inr (None, print ErrorRpfCliRequired (print (GtaFoundAt gta5_path) s3))
                       | Some rpf_cli_path \<Rightarrow>
                          (let s4 = print (GtaFoundAt gta5_path) s3
                           in case (if exists (fs s4) temp_extract_dir
                                    then rmtree (fs s4) temp_extract_dir else Inr (fs s4)) of
                                Inl e \<Rightarrow> Inl (e, s4)
                              | Inr t5 \<Rightarrow>
                                 (case mkdir False False t5 temp_extract_dir of
                                    Inl e \<Rightarrow> Inl (e, s4\<lparr>fs := t5\<rparr>)
                                  | Inr t6 \<Rightarrow>
                                     Inr (Some (temp_extract_dir, Some temp_extract_dir),
                                          extract_dlc E rpf_cli_path gta5_path
                                            (extract_base E rpf_cli_path gta5_path
                                               (print ScanningForRadio (s4\<lparr>fs := t6\<rparr>))))))))))
          else Inr (None, print ErrorProvideInput s)))"

text \<open>\<open>Path.iterdir\<close>: the entries of a directory, as paths.\<close>

definition iterdir :: "node \<Rightarrow> path \<Rightarrow> error + path list" where
  "iterdir t p =
     (case lookup t p of
        None \<Rightarrow> Inl FileNotFoundError
      | Some (File c) \<Rightarrow> Inl NotADirectoryError
      | Some (Dir es) \<Rightarrow> Inr (map (\<lambda>e. p @ [fst e]) es))"

text \<open>Lines 243 to 257: the body of the loop over the station mapping.\<close>

definition organize_station ::
  "env \<Rightarrow> string \<Rightarrow> path \<Rightarrow> path \<Rightarrow> string \<times> string \<Rightarrow> state \<Rightarrow> unit result" where
  "organize_station E vgmstream_path input_dir output_dir entry s =
     (case entry of (rpf_name, station_name) \<Rightarrow>
      (case iterdir (fs s) input_dir of
         Inl e \<Rightarrow> Inl (e, s)
       | Inr items \<Rightarrow>
          (case find (\<lambda>item. is_dir (fs s) item \<and> upper (last item) = upper rpf_name) items of
             Some item \<Rightarrow>
               process_station_folder (subprocess E) vgmstream_path item output_dir station_name s
           | None \<Rightarrow>
              (case find (\<lambda>item. is_dir (fs s) item
                              \<and> upper (last item) = upper (rpf_name @ ''.RPF'')) items of
                 Some item \<Rightarrow>
                   process_station_folder (subprocess E) vgmstream_path item output_dir station_name s
               | None \<Rightarrow> Inr ((), s)))))"

text \<open>Lines 161 to 168: the group directory and its metadata file.\<close>

definition setup_output :: "args \<Rightarrow> state \<Rightarrow> unit result" where
  "setup_output a s =
     (let output_dir = arg_output a @ [''Grand Theft Auto V'']
      in case (if \<not> exists (fs s) output_dir then mkdir True False (fs s) output_dir
               else Inr (fs s)) of
           Inl e \<Rightarrow> Inl (e, s)
         | Inr t1 \<Rightarrow> create_station_info output_dir ''Grand Theft Auto V'' (s\<lparr>fs := t1\<rparr>))"

text \<open>Lines 259 to 262.\<close>

definition cleanup :: "path option \<Rightarrow> state \<Rightarrow> unit result" where
  "cleanup temp s =
     (case temp of
        None \<Rightarrow> Inr ((), s)
      | Some d \<Rightarrow>
          (if exists (fs s) d
           then (case rmtree (fs (print CleaningUp s)) d of
                   Inl e \<Rightarrow> Inl (e, print CleaningUp s)
                 | Inr t' \<Rightarrow> Inr ((), (print CleaningUp s)\<lparr>fs := t'\<rparr>))
           else Inr ((), s)))"

text \<open>Lines 170 to 266: the run after that.\<close>

definition run :: "env \<Rightarrow> args \<Rightarrow> state \<Rightarrow> unit result" where
  "run E a s =
     (let output_dir = arg_output a @ [''Grand Theft Auto V'']
      in case resolve_input E a s of
           Inl r \<Rightarrow> Inl r
         | Inr (None, s1) \<Rightarrow> Inr ((), s1)
         | Inr (Some (input_dir, temp), s1) \<Rightarrow>
            (if \<not> exists (fs s1) input_dir then Inr ((), print InputDirNotFound s1)
             else (case for_each (organize_station E (vgmstream a) input_dir output_dir)
                          STATION_MAP s1 of
                     Inl r \<Rightarrow> Inl r
                   | Inr (u, s2) \<Rightarrow>
                      (case cleanup temp s2 of
                         Inl r \<Rightarrow> Inl r
                       | Inr (u, s3) \<Rightarrow> Inr ((), print (DoneMsg output_dir) s3)))))"

definition main :: "env \<Rightarrow> args \<Rightarrow> state \<Rightarrow> unit result" where
  "main E a s = (case setup_output a s of Inl r \<Rightarrow> Inl r | Inr (u, s1) \<Rightarrow> run E a s1)"

text \<open>The state in which a run ends, by returning or by an exception.\<close>

definition final :: "'a result \<Rightarrow> state" where
  "final r = (case r of Inl (e, s) \<Rightarrow> s | Inr (u, s) \<Rightarrow> s)"

section \<open>The specification's words\<close>

text \<open>
  The selection of a station folder as the specification words it: among the entries of
  the input directory, the first directory whose name equals the archive identifier
  when case is ignored; only if there is none, the first directory whose name equals the
  identifier followed by \<open>.rpf\<close> when case is ignored.
\<close>

definition ci_equal :: "string \<Rightarrow> string \<Rightarrow> bool" where
  "ci_equal a b = (lower a = lower b)"

definition select_station_folder_spec :: "node \<Rightarrow> path list \<Rightarrow> string \<Rightarrow> path option" where
  "select_station_folder_spec t items rpf_name =
     (case find (\<lambda>d. is_dir t d \<and> ci_equal (last d) rpf_name) items of
        Some d \<Rightarrow> Some d
      | None \<Rightarrow> find (\<lambda>d. is_dir t d \<and> ci_equal (last d) (rpf_name @ ''.rpf'')) items)"


text \<open>
  The processes a trace records, in order, and what the specification says of the
  extractions of a scan: an extraction that wrote its directory is followed by no
  extraction into the same directory.
\<close>

definition wrote :: "proc_result \<Rightarrow> bool" where
  "wrote r = (case r of LaunchFailed \<Rightarrow> False | Exited code w \<Rightarrow> w \<noteq> None)"

fun runs_of :: "event list \<Rightarrow> (cmd \<times> proc_result) list" where
  "runs_of [] = []"
| "runs_of (Print m # evs) = runs_of evs"
| "runs_of (Ran c r # evs) = (c, r) # runs_of evs"





section \<open>What the file operations leave alone\<close>

text \<open>
  Writing, removing and creating directories change the tree at their path only: a
  path that lies neither above nor below is read as before, and a file outside the
  written or removed subtree keeps its contents.
\<close>

lemma map_of_delete_same: "map_of (AList.delete k al) k = None"
  by (simp add: AList.delete_conv')

lemma lookup_append: "lookup t (p @ q) = (case lookup t p of None \<Rightarrow> None | Some n \<Rightarrow> lookup n q)"
  by (induction t p rule: lookup.induct) (auto split: option.splits)

lemma lookup_None_append: "lookup t p = None \<Longrightarrow> lookup t (p @ q) = None"
  by (simp add: lookup_append)

lemma lookup_File_append: "lookup t p = Some (File c) \<Longrightarrow> q \<noteq> [] \<Longrightarrow> lookup t (p @ q) = None"
  by (cases q) (simp_all add: lookup_append)

lemma lookup_put_same: "put t p v = Some t' \<Longrightarrow> lookup t' p = Some v"
  by (induction t p v arbitrary: t' rule: put.induct)
     (auto simp: AList.update_conv' split: if_splits option.splits)

lemma lookup_put_below: "put t p v = Some t' \<Longrightarrow> lookup t' (p @ q) = lookup v q"
  by (simp add: lookup_append lookup_put_same)

lemma lookup_put_other:
  "put t p v = Some t' \<Longrightarrow> \<not> prefix p q \<Longrightarrow> \<not> prefix q p \<Longrightarrow> lookup t' q = lookup t q"
proof (induction t p v arbitrary: t' q rule: put.induct)
  case (1 n v)
  then show ?case by simp
next
  case (2 c x p v)
  then show ?case by simp
next
  case (3 es x p v)
  from 3(4) obtain y q' where q: "q = y # q'" by (cases q) auto
  show ?case
  proof (cases "p = []")
    case True
    with 3(2,3) q have "y \<noteq> x" by auto
    with True 3(2) q show ?thesis by (auto simp: AList.update_conv')
  next
    case False
    with 3(2) obtain n n' where n: "map_of es x = Some n" "put n p v = Some n'"
      and t': "t' = Dir (AList.update x n' es)"
      by (auto split: option.splits)
    show ?thesis
    proof (cases "y = x")
      case True
      with 3(3,4) q have "\<not> prefix p q'" "\<not> prefix q' p" by auto
      with 3(1)[OF False n(1) n(2)] have "lookup n' q' = lookup n q'" by blast
      with True q t' n show ?thesis by (simp add: AList.update_conv')
    next
      case False
      with q t' show ?thesis by (simp add: AList.update_conv')
    qed
  qed
qed






lemma lookup_remove_same: "p \<noteq> [] \<Longrightarrow> lookup (remove t p) p = None"
proof (induction t p rule: remove.induct)
  case (1 n)
  then show ?case by simp
next
  case (2 c x p)
  then show ?case by simp
next
  case (3 es x p)
  then show ?case
    by (auto simp: AList.delete_conv' AList.update_conv' split: option.splits)
qed

lemma mkdirs_Dir: "mkdirs t p = Inr t' \<Longrightarrow> \<exists>es. lookup t' p = Some (Dir es)"
proof (induction t p arbitrary: t' rule: mkdirs.induct)
  case (1 c p)
  then show ?case by simp
next
  case (2 es)
  then show ?case by auto
next
  case (3 es x p)
  then show ?case
    by (auto simp: AList.update_conv' split: option.splits sum.splits)
qed

lemma lookup_mkdirs_other:
  "mkdirs t p = Inr t' \<Longrightarrow> \<not> prefix q p \<Longrightarrow> lookup t' q = lookup t q"
proof (induction t p arbitrary: t' q rule: mkdirs.induct)
  case (1 c p)
  then show ?case by simp
next
  case (2 es)
  then show ?case by simp
next
  case (3 es x p)
  from 3(4) obtain y q' where q: "q = y # q'" by (cases q) auto
  show ?case
  proof (cases "map_of es x")
    case None
    with 3(3) obtain n where n: "mkdirs (Dir []) p = Inr n" and t': "t' = Dir (es @ [(x, n)])"
      by (auto split: sum.splits)
    show ?thesis
    proof (cases "y = x")
      case True
      with 3(4) q have "\<not> prefix q' p" by auto
      with 3(1)[OF None n] have "lookup n q' = lookup (Dir []) q'" by blast
      moreover from \<open>\<not> prefix q' p\<close> have "q' \<noteq> []" by auto
      then have "lookup (Dir []) q' = None" by (cases q') auto
      ultimately show ?thesis using True q t' None by (simp add: map_add_def)
    next
      case False
      with q t' show ?thesis by (auto simp: map_add_def split: option.splits)
    qed
  next
    case (Some n)
    with 3(3) obtain n' where n': "mkdirs n p = Inr n'" and t': "t' = Dir (AList.update x n' es)"
      by (auto split: sum.splits)
    show ?thesis
    proof (cases "y = x")
      case True
      with 3(4) q have "\<not> prefix q' p" by auto
      with 3(2)[OF Some n'] have "lookup n' q' = lookup n q'" by blast
      with True q t' Some show ?thesis by (simp add: AList.update_conv')
    next
      case False
      with q t' show ?thesis by (simp add: AList.update_conv')
    qed
  qed
qed



section \<open>The audio converter and the station folder\<close>

text \<open>
  The example of the specification: a station folder with \<open>track1.AWC\<close>,
  \<open>track2.awc\<close> and \<open>notes.txt\<close> gives \<open>track1.wav\<close> and \<open>track2.wav\<close> in
  \<open>Songs\<close>, and nothing for \<open>notes.txt\<close>.
\<close>

lemma organize_spec_example:
  "fs (final (process_station_folder (\<lambda>t c. Exited 0 (Some (File (last (in_arg c)))))
       ''vgmstream'' [''RADIO_02_POP''] [''out''] ''Non-Stop-Pop FM''
       \<lparr>fs = Dir [(''RADIO_02_POP'',
                    Dir [(''track1.AWC'', File ''a''), (''track2.awc'', File ''b''),
                         (''notes.txt'', File ''c'')]),
                   (''out'', Dir [])],
        trace = []\<rparr>))
   = Dir [(''RADIO_02_POP'',
            Dir [(''track1.AWC'', File ''a''), (''track2.awc'', File ''b''),
                 (''notes.txt'', File ''c'')]),
          (''out'', Dir [(''Non-Stop-Pop FM'', Dir [(''Songs'',
              Dir [(''track1.wav'', File ''track1.AWC''),
                   (''track2.wav'', File ''track2.awc'')])])])]"
  by code_simp

text \<open>
  C1. A file whose name ends in \<open>.awc\<close> in any mix of cases is converted, but its
  extension is renamed only when it is spelled \<open>.awc\<close> or \<open>.AWC\<close>: the source
  replaces these two spellings and no other. \<open>track.Awc\<close> passes the test of the
  extension and is converted to \<open>Songs/track.Awc\<close>, not to \<open>Songs/track.wav\<close>.
\<close>

theorem C1_mixed_case_extension_kept:
  "endswith (lower ''track.Awc'') ''.awc''
   \<and> output_filename ''track.Awc'' = ''track.Awc''
   \<and> fs (final (process_station_folder (\<lambda>t c. Exited 0 (Some (File (last (in_arg c)))))
       ''vgmstream'' [''RADIO_02_POP''] [''out''] ''Non-Stop-Pop FM''
       \<lparr>fs = Dir [(''RADIO_02_POP'', Dir [(''track.Awc'', File ''a'')]), (''out'', Dir [])],
        trace = []\<rparr>))
     = Dir [(''RADIO_02_POP'', Dir [(''track.Awc'', File ''a'')]),
            (''out'', Dir [(''Non-Stop-Pop FM'', Dir [(''Songs'',
                Dir [(''track.Awc'', File ''track.Awc'')])])])]"
  by code_simp

text \<open>
  A transcoder that exits with a status other than zero makes \<open>convert_awc\<close> return
  \<open>False\<close>, and the extractor's wrapper returns \<open>False\<close> also when its process
  cannot be launched.
\<close>

lemma convert_awc_nonzero_exit:
  "sp (fs s) (Cmd vg outp inp) = Exited code w \<Longrightarrow> code \<noteq> 0 \<Longrightarrow>
   \<exists>s'. convert_awc sp vg inp outp s = Inr (False, s')"
  by (simp add: convert_awc_def subprocess_run_def Let_def)

lemma extract_rpf_launch_failure:
  "fst (extract_rpf (\<lambda>t c. LaunchFailed) rpf_cli_path rpf_file output_dir s) = False"
  by (simp add: extract_rpf_def subprocess_run_def)

text \<open>
  C2. A transcoder that cannot be launched is not reported as a failure result:
  \<open>convert_awc\<close> catches \<open>CalledProcessError\<close> only, so the launch error leaves it
  as an exception. In a station folder with two container files the walk ends at the
  first one, and the second is never converted.
\<close>

theorem C2_launch_failure_raised:
  "convert_awc (\<lambda>t c. LaunchFailed) vg inp outp s
     = Inl (OSError, s\<lparr>trace := trace s @ [Ran (Cmd vg outp inp) LaunchFailed]\<rparr>)
   \<and> process_station_folder (\<lambda>t c. LaunchFailed)
       ''vgmstream'' [''RADIO_02_POP''] [''out''] ''Non-Stop-Pop FM''
       \<lparr>fs = Dir [(''RADIO_02_POP'',
                    Dir [(''track1.awc'', File ''a''), (''track2.awc'', File ''b'')]),
                   (''out'', Dir [])],
        trace = []\<rparr>
     = Inl (OSError,
        \<lparr>fs = Dir [(''RADIO_02_POP'',
                    Dir [(''track1.awc'', File ''a''), (''track2.awc'', File ''b'')]),
                   (''out'', Dir [(''Non-Stop-Pop FM'', Dir [(''Songs'', Dir [])])])],
         trace = [Print (Processing ''Non-Stop-Pop FM'' [''RADIO_02_POP'']),
                  Ran (Cmd ''vgmstream'' [''out'', ''Non-Stop-Pop FM'', ''Songs'', ''track1.wav'']
                         [''RADIO_02_POP'', ''track1.awc'']) LaunchFailed]\<rparr>)"
proof -
  have a: "convert_awc (\<lambda>t c. LaunchFailed) vg inp outp s
     = Inl (OSError, s\<lparr>trace := trace s @ [Ran (Cmd vg outp inp) LaunchFailed]\<rparr>)"
    by (simp add: convert_awc_def subprocess_run_def)
  have b: "process_station_folder (\<lambda>t c. LaunchFailed)
       ''vgmstream'' [''RADIO_02_POP''] [''out''] ''Non-Stop-Pop FM''
       \<lparr>fs = Dir [(''RADIO_02_POP'',
                    Dir [(''track1.awc'', File ''a''), (''track2.awc'', File ''b'')]),
                   (''out'', Dir [])],
        trace = []\<rparr>
     = Inl (OSError,
        \<lparr>fs = Dir [(''RADIO_02_POP'',
                    Dir [(''track1.awc'', File ''a''), (''track2.awc'', File ''b'')]),
                   (''out'', Dir [(''Non-Stop-Pop FM'', Dir [(''Songs'', Dir [])])])],
         trace = [Print (Processing ''Non-Stop-Pop FM'' [''RADIO_02_POP'']),
                  Ran (Cmd ''vgmstream'' [''out'', ''Non-Stop-Pop FM'', ''Songs'', ''track1.wav'']
                         [''RADIO_02_POP'', ''track1.awc'']) LaunchFailed]\<rparr>)"
    by code_simp
  from a b show ?thesis by (rule conjI)
qed

section \<open>The set-up of a run\<close>

lemma final_simps [simp]: "final (Inl (e, s)) = s" "final (Inr (u, s)) = s"
  by (simp_all add: final_def)

lemma setup_output_trace: "trace (final (setup_output a s)) = trace s"
  by (simp add: setup_output_def create_station_info_def Let_def split: sum.splits)

lemma setup_output_frame:
  assumes "\<not> prefix q (arg_output a @ [''Grand Theft Auto V''])"
    and "q \<noteq> arg_output a @ [''Grand Theft Auto V'', ''stationGroupInfo.json'']"
  shows "lookup (fs (final (setup_output a s))) q = lookup (fs s) q"
proof -
  let ?g = "arg_output a @ [''Grand Theft Auto V'']"
  let ?i = "?g @ [''stationGroupInfo.json'']"
  have i: "?i = arg_output a @ [''Grand Theft Auto V'', ''stationGroupInfo.json'']" by simp
  have mk: "lookup t1 q = lookup (fs s) q"
    if h: "(if \<not> exists (fs s) ?g then mkdir True False (fs s) ?g else Inr (fs s)) = Inr t1" for t1
  proof (cases "exists (fs s) ?g")
    case True
    with h show ?thesis by simp
  next
    case False
    with h have "mkdirs (fs s) ?g = Inr t1" by (simp add: mkdir_def)
    from lookup_mkdirs_other[OF this assms(1)] show ?thesis .
  qed
  have wr: "lookup t2 q = lookup t1 q"
    if ne: "\<not> exists t1 ?i" and w: "write_text t1 ?i info_json = Inr t2" for t1 t2
  proof -
    from ne have n: "lookup t1 ?i = None" by (simp add: exists_def)
    with w have p: "put t1 ?i (File info_json) = Some t2"
      by (simp add: write_text_def split: option.splits)
    show ?thesis
    proof (cases "prefix ?i q")
      case True
      then obtain r where r: "q = ?i @ r" by (auto simp: prefix_def)
      with assms(2) i have "r \<noteq> []" by auto
      then have "lookup (File info_json) r = None" by (cases r) auto
      with lookup_put_below[OF p, of r] lookup_None_append[OF n, of r] r show ?thesis by simp
    next
      case False
      moreover have "\<not> prefix q ?i"
      proof
        assume "prefix q ?i"
        then have "q = ?i \<or> prefix q ?g" by (rule iffD1[OF prefix_snoc])
        with assms i show False by auto
      qed
      ultimately show ?thesis using lookup_put_other[OF p] by blast
    qed
  qed
  show ?thesis
  proof (cases "if \<not> exists (fs s) ?g then mkdir True False (fs s) ?g else Inr (fs s)")
    case (Inl e)
    then show ?thesis by (simp add: setup_output_def)
  next
    case (Inr t1)
    note m = mk[OF Inr]
    show ?thesis
    proof (cases "exists t1 ?i")
      case True
      with Inr m show ?thesis by (simp add: setup_output_def create_station_info_def)
    next
      case False
      show ?thesis
      proof (cases "write_text t1 ?i info_json")
        case (Inl e)
        with \<open>_ = Inr t1\<close> False m show ?thesis
          by (simp add: setup_output_def create_station_info_def)
      next
        case (Inr t2)
        with \<open>_ = Inr t1\<close> False m wr[OF False Inr] show ?thesis
          by (simp add: setup_output_def create_station_info_def)
      qed
    qed
  qed
qed

text \<open>
  C8. With neither \<open>--input\<close> nor \<open>--auto-detect\<close> the run is the set-up
  followed by the error message and nothing else: no process is run, and the file
  system is changed nowhere but on the way to the group directory and at the group's
  metadata file.
\<close>

theorem C8_no_input_aborts_after_setup:
  assumes "arg_input a = None" and "\<not> auto_detect a"
  shows "main E a s = (case setup_output a s of
                         Inl r \<Rightarrow> Inl r
                       | Inr (u, s1) \<Rightarrow> Inr ((), print ErrorProvideInput s1))
    \<and> (\<forall>q. \<not> prefix q (arg_output a @ [''Grand Theft Auto V''])
           \<and> q \<noteq> arg_output a @ [''Grand Theft Auto V'', ''stationGroupInfo.json'']
         \<longrightarrow> lookup (fs (final (main E a s))) q = lookup (fs s) q)
    \<and> (trace (final (main E a s)) = trace s
        \<or> trace (final (main E a s)) = trace s @ [Print ErrorProvideInput])"
proof -
  have m: "main E a s = (case setup_output a s of
                         Inl r \<Rightarrow> Inl r
                       | Inr (u, s1) \<Rightarrow> Inr ((), print ErrorProvideInput s1))"
    using assms by (simp add: main_def run_def resolve_input_def split: sum.splits)
  have f: "fs (final (main E a s)) = fs (final (setup_output a s))"
    unfolding m by (cases "setup_output a s") (auto simp: print_def)
  have t: "trace (final (main E a s)) = trace s
        \<or> trace (final (main E a s)) = trace s @ [Print ErrorProvideInput]"
    unfolding m using setup_output_trace[of a s]
    by (cases "setup_output a s") (auto simp: print_def)
  have q: "\<forall>q. \<not> prefix q (arg_output a @ [''Grand Theft Auto V''])
           \<and> q \<noteq> arg_output a @ [''Grand Theft Auto V'', ''stationGroupInfo.json'']
         \<longrightarrow> lookup (fs (final (main E a s))) q = lookup (fs s) q"
    unfolding f using setup_output_frame by blast
  from m q t show ?thesis by blast
qed

text \<open>The hypotheses of C8 hold for a run with no option but the required ones.\<close>

theorem C8_witness:
  "main \<lparr>subprocess = (\<lambda>t c. LaunchFailed), registry_steam_path = None, Path = (\<lambda>x. [x])\<rparr>
        \<lparr>arg_input = None, arg_output = [''out''], vgmstream = ''vgmstream'',
         rpf_cli = None, auto_detect = False\<rparr>
        \<lparr>fs = Dir [(''RADIO_02_POP'', Dir [(''a.awc'', File ''x'')])], trace = []\<rparr>
   = Inr ((), \<lparr>fs = Dir [(''RADIO_02_POP'', Dir [(''a.awc'', File ''x'')]),
                         (''out'', Dir [(''Grand Theft Auto V'',
                             Dir [(''stationGroupInfo.json'', File info_json)])])],
               trace = [Print ErrorProvideInput]\<rparr>)"
proof -
  let ?E = "\<lparr>subprocess = (\<lambda>t c. LaunchFailed), registry_steam_path = None, Path = (\<lambda>x. [x])\<rparr>"
  let ?a = "\<lparr>arg_input = None, arg_output = [''out''], vgmstream = ''vgmstream'',
         rpf_cli = None, auto_detect = False\<rparr>"
  let ?s = "\<lparr>fs = Dir [(''RADIO_02_POP'', Dir [(''a.awc'', File ''x'')])], trace = []\<rparr>"
  have s: "setup_output ?a ?s
    = Inr ((), \<lparr>fs = Dir [(''RADIO_02_POP'', Dir [(''a.awc'', File ''x'')]),
                         (''out'', Dir [(''Grand Theft Auto V'',
                             Dir [(''stationGroupInfo.json'', File info_json)])])],
               trace = []\<rparr>)"
    by (simp add: setup_output_def create_station_info_def mkdir_def exists_def write_text_def)
  have h: "arg_input ?a = None" "\<not> auto_detect ?a" by simp_all
  have "main ?E ?a ?s = (case setup_output ?a ?s of
                         Inl r \<Rightarrow> Inl r
                       | Inr (u, s1) \<Rightarrow> Inr ((), print ErrorProvideInput s1))"
    using C8_no_input_aborts_after_setup[OF h, of ?E ?s] by (rule conjunct1)
  with s show ?thesis by (simp add: print_def)
qed

section \<open>Selecting the station folders\<close>

text \<open>Comparing the upper-case forms is comparing with case ignored.\<close>

lemma lower_upper_char: "lower_char (upper_char c) = lower_char c"
  by (auto simp: lower_char_def upper_char_def)

lemma upper_lower_char: "upper_char (lower_char c) = upper_char c"
  by (auto simp: lower_char_def upper_char_def)

lemma lower_upper: "lower (upper s) = lower s"
  by (simp add: lower_def upper_def lower_upper_char)

lemma upper_lower: "upper (lower s) = upper s"
  by (simp add: lower_def upper_def upper_lower_char)

lemma upper_eq_iff_ci_equal: "upper a = upper b \<longleftrightarrow> ci_equal a b"
proof
  assume "upper a = upper b"
  then have "lower (upper a) = lower (upper b)" by simp
  then show "ci_equal a b" by (simp add: lower_upper ci_equal_def)
next
  assume "ci_equal a b"
  then have "upper (lower a) = upper (lower b)" by (simp add: ci_equal_def)
  then show "upper a = upper b" by (simp add: upper_lower)
qed

lemma ci_equal_rpf: "ci_equal a (n @ ''.RPF'') \<longleftrightarrow> ci_equal a (n @ ''.rpf'')"
proof -
  have "lower ''.RPF'' = lower ''.rpf''" by code_simp
  moreover have "lower (n @ x) = lower n @ lower x" for x by (simp add: lower_def)
  ultimately show ?thesis by (simp add: ci_equal_def)
qed

lemma select_station_folder_spec_None:
  "select_station_folder_spec t items rpf_name = None \<longleftrightarrow>
     (\<forall>d \<in> set items. is_dir t d \<longrightarrow>
        \<not> ci_equal (last d) rpf_name \<and> \<not> ci_equal (last d) (rpf_name @ ''.rpf''))"
proof (cases "find (\<lambda>d. is_dir t d \<and> ci_equal (last d) rpf_name) items")
  case None
  then have "select_station_folder_spec t items rpf_name
      = find (\<lambda>d. is_dir t d \<and> ci_equal (last d) (rpf_name @ ''.rpf'')) items"
    by (simp add: select_station_folder_spec_def)
  moreover from None have "\<forall>d \<in> set items. \<not> (is_dir t d \<and> ci_equal (last d) rpf_name)"
    unfolding find_None_iff by blast
  ultimately show ?thesis by (auto simp: find_None_iff)
next
  case (Some d)
  then have "find (\<lambda>d. is_dir t d \<and> ci_equal (last d) rpf_name) items \<noteq> None" by simp
  then have "\<exists>d \<in> set items. is_dir t d \<and> ci_equal (last d) rpf_name"
    unfolding find_None_iff by blast
  with Some show ?thesis by (auto simp: select_station_folder_spec_def)
qed

text \<open>
  C6. For an entry of the station mapping the organizer processes the folder the
  specification's selection names: the identifier itself first, the identifier with
  \<open>.rpf\<close> only when the first pattern matches no directory, both with case ignored.
  When neither matches, the state of the run is unchanged: nothing is printed, created
  or converted for that station.
\<close>

theorem C6_station_folder_selection:
  assumes "iterdir (fs s) input_dir = Inr items"
  shows "organize_station E vgmstream_path input_dir output_dir (rpf_name, station_name) s
     = (case select_station_folder_spec (fs s) items rpf_name of
          Some d \<Rightarrow> process_station_folder (subprocess E) vgmstream_path d output_dir station_name s
        | None \<Rightarrow> Inr ((), s))"
  using assms
  by (simp add: organize_station_def select_station_folder_spec_def upper_eq_iff_ci_equal
        ci_equal_rpf split: option.splits)

text \<open>
  A directory named \<open>Radio_02_Pop.rpf\<close> beside a plain file \<open>radio_02_pop\<close>: the
  first pattern matches no directory, the second one does.
\<close>

theorem C6_witness:
  "organize_station \<lparr>subprocess = (\<lambda>t c. Exited 0 None), registry_steam_path = None,
                       Path = (\<lambda>x. [x])\<rparr>
      ''vgmstream'' [''in''] [''out''] (''RADIO_02_POP'', ''Non-Stop-Pop FM'')
      \<lparr>fs = Dir [(''in'', Dir [(''Radio_02_Pop.rpf'', Dir [(''a.awc'', File ''x'')]),
                                (''radio_02_pop'', File ''y'')]),
                  (''out'', Dir [])],
       trace = []\<rparr>
   = Inr ((),
      \<lparr>fs = Dir [(''in'', Dir [(''Radio_02_Pop.rpf'', Dir [(''a.awc'', File ''x'')]),
                                (''radio_02_pop'', File ''y'')]),
                  (''out'', Dir [(''Non-Stop-Pop FM'', Dir [(''Songs'', Dir [])])])],
       trace = [Print (Processing ''Non-Stop-Pop FM'' [''in'', ''Radio_02_Pop.rpf'']),
                Ran (Cmd ''vgmstream'' [''out'', ''Non-Stop-Pop FM'', ''Songs'', ''a.wav'']
                       [''in'', ''Radio_02_Pop.rpf'', ''a.awc'']) (Exited 0 None)]\<rparr>)"
proof -
  let ?E = "\<lparr>subprocess = (\<lambda>t c. Exited 0 None), registry_steam_path = None,
             Path = (\<lambda>x. [x])\<rparr>"
  let ?s = "\<lparr>fs = Dir [(''in'', Dir [(''Radio_02_Pop.rpf'', Dir [(''a.awc'', File ''x'')]),
                                (''radio_02_pop'', File ''y'')]),
                  (''out'', Dir [])],
       trace = []\<rparr>"
  let ?items = "[[''in'', ''Radio_02_Pop.rpf''], [''in'', ''radio_02_pop'']]"
  have h: "iterdir (fs ?s) [''in''] = Inr ?items" by (simp add: iterdir_def)
  have r: "(case select_station_folder_spec (fs ?s) ?items ''RADIO_02_POP'' of
          Some d \<Rightarrow> process_station_folder (subprocess ?E) ''vgmstream'' d [''out'']
                     ''Non-Stop-Pop FM'' ?s
        | None \<Rightarrow> Inr ((), ?s))
     = Inr ((),
      \<lparr>fs = Dir [(''in'', Dir [(''Radio_02_Pop.rpf'', Dir [(''a.awc'', File ''x'')]),
                                (''radio_02_pop'', File ''y'')]),
                  (''out'', Dir [(''Non-Stop-Pop FM'', Dir [(''Songs'', Dir [])])])],
       trace = [Print (Processing ''Non-Stop-Pop FM'' [''in'', ''Radio_02_Pop.rpf'']),
                Ran (Cmd ''vgmstream'' [''out'', ''Non-Stop-Pop FM'', ''Songs'', ''a.wav'']
                       [''in'', ''Radio_02_Pop.rpf'', ''a.awc'']) (Exited 0 None)]\<rparr>)"
    by code_simp
  from C6_station_folder_selection[OF h, of ?E "''vgmstream''" "[''out'']" "''RADIO_02_POP''"
         "''Non-Stop-Pop FM''"] r
  show ?thesis by (rule trans)
qed

lemma skipped_station_example:
  "organize_station E ''vgmstream'' [''in''] [''out''] (''RADIO_02_POP'', ''Non-Stop-Pop FM'')
      \<lparr>fs = Dir [(''in'', Dir [(''RADIO_04_PUNK'', Dir []), (''RADIO_02_POP'', File ''y'')])],
       trace = []\<rparr>
   = Inr ((),
      \<lparr>fs = Dir [(''in'', Dir [(''RADIO_04_PUNK'', Dir []), (''RADIO_02_POP'', File ''y'')])],
       trace = []\<rparr>)"
  by code_simp

section \<open>Library folders and the installation\<close>

text \<open>
  The pattern of the source finds a well-formed pair: the quoted key, white space, and a
  quoted value with no quote and no newline in it.
\<close>

lemma match_value_wellformed:
  assumes "v \<noteq> []" and "\<forall>c \<in> set v. c \<noteq> CHR 0x22 \<and> c \<noteq> CHR 0x0A"
  shows "match_value (CHR 0x22 # v @ CHR 0x22 # rest) = Some (v, rest)"
proof -
  from assms(1) obtain c0 v' where v: "v = c0 # v'" by (cases v) auto
  with assms(2) have c0: "c0 \<noteq> CHR 0x0A" and v': "\<forall>c \<in> set v'. c \<noteq> CHR 0x22 \<and> c \<noteq> CHR 0x0A"
    by auto
  from v' have "dropWhile (\<lambda>c. c \<noteq> CHR 0x22 \<and> c \<noteq> CHR 0x0A) (v' @ CHR 0x22 # rest)
      = CHR 0x22 # rest"
    by (simp add: dropWhile_append2)
  moreover from v' have "takeWhile (\<lambda>c. c \<noteq> CHR 0x22 \<and> c \<noteq> CHR 0x0A) (v' @ CHR 0x22 # rest)
      = v'"
    by (simp add: takeWhile_append2)
  ultimately show ?thesis using c0 v by (simp add: match_value_def)
qed

lemma match_pair_wellformed:
  assumes "ws \<noteq> []" and "\<forall>c \<in> set ws. is_space c"
    and "v \<noteq> []" and "\<forall>c \<in> set v. c \<noteq> CHR 0x22 \<and> c \<noteq> CHR 0x0A"
  shows "match_pair key (CHR 0x22 # key @ CHR 0x22 # ws @ CHR 0x22 # v @ CHR 0x22 # rest)
           = Some (v, rest)"
proof -
  let ?lit = "CHR 0x22 # key @ [CHR 0x22]"
  let ?tail = "ws @ CHR 0x22 # v @ CHR 0x22 # rest"
  have s: "CHR 0x22 # key @ CHR 0x22 # ?tail = ?lit @ ?tail" by simp
  have q: "\<not> is_space (CHR 0x22)" by (simp add: is_space_def)
  from assms(2) q have t: "takeWhile is_space ?tail = ws"
    by (simp add: takeWhile_append2)
  from assms(2) q have d: "dropWhile is_space ?tail = CHR 0x22 # v @ CHR 0x22 # rest"
    by (simp add: dropWhile_append2)
  have "match_pair key (?lit @ ?tail) = match_value (CHR 0x22 # v @ CHR 0x22 # rest)"
    unfolding match_pair_def Let_def using t d assms(1) by simp
  with match_value_wellformed[OF assms(3,4)] s show ?thesis by simp
qed

text \<open>
  C4. Without the manifest \<open>parse_library_folders\<close> returns the root alone. With a
  readable manifest it returns, without duplicates, the root and the path made of every
  \<open>"path"\<close> value the pattern finds, each value with every pair of backslashes
  replaced by one backslash.
\<close>

theorem C4_library_folders:
  "(\<not> exists (fs s) (steam_path @ [''steamapps'', ''libraryfolders.vdf''])
      \<longrightarrow> parse_library_folders to_path steam_path s = ([steam_path], s))
   \<and> (\<forall>content. read_text (fs s) (steam_path @ [''steamapps'', ''libraryfolders.vdf'']) = Inr content
      \<longrightarrow> set (fst (parse_library_folders to_path steam_path s))
            = insert steam_path
                ((\<lambda>m. to_path (replace [CHR 0x5C, CHR 0x5C] [CHR 0x5C] m))
                   ` set (findall ''path'' content))
          \<and> distinct (fst (parse_library_folders to_path steam_path s))
          \<and> snd (parse_library_folders to_path steam_path s) = s)"
  by (auto simp: parse_library_folders_def Let_def read_text_def exists_def
        split: option.splits node.splits)

text \<open>
  The manifest of the specification's example: the key \<open>"path"\<close>, two tabs, and the
  quoted value \<open>C:\<close>, two backslashes, \<open>Games\<close>, two backslashes,
  \<open>SteamLib\<close>. It gives the library folder \<open>C:\<close>, one backslash,
  \<open>Games\<close>, one backslash, \<open>SteamLib\<close>, beside the root.
\<close>

theorem C4_witness:
  "set (fst (parse_library_folders (\<lambda>x. [x]) [''Steam'']
      \<lparr>fs = Dir [(''Steam'', Dir [(''steamapps'', Dir [(''libraryfolders.vdf'',
               File (''\"path\"'' @ [CHR 0x09, CHR 0x09] @ ''\"C:'' @ [CHR 0x5C, CHR 0x5C]
                     @ ''Games'' @ [CHR 0x5C, CHR 0x5C] @ ''SteamLib\"''))])])],
        trace = []\<rparr>))
   = {[''Steam''], [''C:'' @ [CHR 0x5C] @ ''Games'' @ [CHR 0x5C] @ ''SteamLib'']}"
proof -
  let ?c = "''\"path\"'' @ [CHR 0x09, CHR 0x09] @ ''\"C:'' @ [CHR 0x5C, CHR 0x5C]
                     @ ''Games'' @ [CHR 0x5C, CHR 0x5C] @ ''SteamLib\"''"
  let ?s = "\<lparr>fs = Dir [(''Steam'', Dir [(''steamapps'', Dir [(''libraryfolders.vdf'',
               File ?c)])])], trace = []\<rparr>"
  have r: "read_text (fs ?s) ([''Steam''] @ [''steamapps'', ''libraryfolders.vdf'']) = Inr ?c"
    by (simp add: read_text_def)
  have f: "findall ''path'' ?c
         = [''C:'' @ [CHR 0x5C, CHR 0x5C] @ ''Games'' @ [CHR 0x5C, CHR 0x5C] @ ''SteamLib'']"
    by code_simp
  have u: "replace [CHR 0x5C, CHR 0x5C] [CHR 0x5C]
             (''C:'' @ [CHR 0x5C, CHR 0x5C] @ ''Games'' @ [CHR 0x5C, CHR 0x5C] @ ''SteamLib'')
         = ''C:'' @ [CHR 0x5C] @ ''Games'' @ [CHR 0x5C] @ ''SteamLib''"
    by code_simp
  from C4_library_folders[of ?s "[''Steam'']" "\<lambda>x. [x]"] r
  have "set (fst (parse_library_folders (\<lambda>x. [x]) [''Steam''] ?s))
            = insert [''Steam'']
                ((\<lambda>m. [replace [CHR 0x5C, CHR 0x5C] [CHR 0x5C] m])
                   ` set (findall ''path'' ?c))"
    by blast
  then show ?thesis unfolding f u by auto
qed

lemma fs_print [simp]: "fs (print m s) = fs s"
  by (simp add: print_def)




text \<open>
  Three library folders: the manifest of the first cannot be read (it is a directory),
  the second names an existing installation, which is returned.
\<close>

lemma find_gta5_install_example:
  "fst (find_gta5_install [[''lib1''], [''lib2''], [''lib3'']]
     \<lparr>fs = Dir [(''lib1'', Dir [(''steamapps'', Dir [(''appmanifest_271590.acf'', Dir [])])]),
                 (''lib2'', Dir [(''steamapps'',
                     Dir [(''appmanifest_271590.acf'',
                             File (''\"installdir\"'' @ [CHR 0x09, CHR 0x09] @ ''\"MyGame\"'')),
                          (''common'', Dir [(''MyGame'', Dir [])])])])],
      trace = []\<rparr>)
   = Some [''lib2'', ''steamapps'', ''common'', ''MyGame'']"
  by code_simp

section \<open>Container files of the same name\<close>

lemma put_in_dir: "lookup t p = Some (Dir es) \<Longrightarrow> \<exists>t'. put t (p @ [x]) v = Some t'"
proof (induction t p arbitrary: es rule: lookup.induct)
  case (1 n)
  then show ?case by simp
next
  case (2 c y p)
  then show ?case by simp
next
  case (3 ds y p)
  from 3(2) obtain n where n: "map_of ds y = Some n" "lookup n p = Some (Dir es)"
    by (auto split: option.splits)
  from 3(1)[OF n] obtain t' where "put n (p @ [x]) v = Some t'" by blast
  with n(1) show ?case by simp
qed

lemma is_dir_lookup: "is_dir t p \<longleftrightarrow> (\<exists>es. lookup t p = Some (Dir es))"
  by (auto simp: is_dir_def split: option.splits node.splits)



text \<open>The same on a whole station folder with \<open>cd1/intro.awc\<close> and \<open>cd2/intro.awc\<close>.\<close>

lemma same_name_example:
  "fs (final (process_station_folder (\<lambda>t c. Exited 0 (Some (File (last (butlast (in_arg c))))))
       ''vgmstream'' [''RADIO_02_POP''] [''out''] ''Non-Stop-Pop FM''
       \<lparr>fs = Dir [(''RADIO_02_POP'',
                    Dir [(''cd1'', Dir [(''intro.awc'', File ''a'')]),
                         (''cd2'', Dir [(''intro.awc'', File ''b'')])]),
                   (''out'', Dir [])],
        trace = []\<rparr>))
   = Dir [(''RADIO_02_POP'',
            Dir [(''cd1'', Dir [(''intro.awc'', File ''a'')]),
                 (''cd2'', Dir [(''intro.awc'', File ''b'')])]),
          (''out'', Dir [(''Non-Stop-Pop FM'', Dir [(''Songs'',
              Dir [(''intro.wav'', File ''cd2'')])])])]"
  by code_simp

section \<open>The scan of the expansion packs\<close>

lemma put_child_keeps_dir:
  "lookup t p = Some (Dir es) \<Longrightarrow> put t (p @ [x]) v = Some t' \<Longrightarrow> \<exists>es'. lookup t' p = Some (Dir es')"
proof (induction t p arbitrary: es t' rule: lookup.induct)
  case (1 n)
  then show ?case by auto
next
  case (2 c y p)
  then show ?case by simp
next
  case (3 ds y p)
  from 3(2) obtain n where n: "map_of ds y = Some n" "lookup n p = Some (Dir es)"
    by (auto split: option.splits)
  from 3(3) n(1) obtain n' where n': "put n (p @ [x]) v = Some n'"
    and t': "t' = Dir (AList.update y n' ds)"
    by (auto split: option.splits)
  from 3(1)[OF n n'] obtain es' where "lookup n' p = Some (Dir es')" by blast
  with t' show ?case by (simp add: AList.update_conv')
qed




lemma extract_rpf_fs:
  "fs (snd (extract_rpf sp rp inp outp s))
     = (case sp (fs s) (Cmd rp outp inp) of
          Exited code (Some n) \<Rightarrow> (case put (fs s) outp n of None \<Rightarrow> fs s | Some t \<Rightarrow> t)
        | _ \<Rightarrow> fs s)"
  by (cases "sp (fs s) (Cmd rp outp inp)")
     (auto simp: extract_rpf_def subprocess_run_def print_def Let_def split: option.splits)













text \<open>
  The guard is the existence of the directory and nothing else: an extraction that
  fails and leaves no directory is followed by the extraction of the next match.
\<close>

lemma failed_extraction_is_retried:
  "map (\<lambda>x. (in_arg (fst x), wrote (snd x))) (runs_of (trace (extract_dlc
        \<lparr>subprocess = (\<lambda>t c. if last (butlast (in_arg c)) = ''patch1''
                                then Exited 1 None else Exited 0 (Some (Dir []))),
         registry_steam_path = None, Path = (\<lambda>x. [x])\<rparr> ''rpf-cli'' [''GTAV'']
        \<lparr>fs = Dir [(''temp_gta5_extraction'', Dir []),
                   (''GTAV'', Dir [(''update'', Dir [(''x64'', Dir [(''dlcpacks'', Dir [
                       (''patch1'', Dir [(''radio_21_dlc_xm17.RPF'', File ''one'')]),
                       (''patch2'', Dir [(''RADIO_21_DLC_XM17.rpf'', File ''two'')]),
                       (''patch3'', Dir [(''RADIO_21_DLC_XM17.rpf'', File ''three'')])])])])])],
         trace = []\<rparr>)))
     = [([''GTAV'', ''update'', ''x64'', ''dlcpacks'', ''patch1'', ''radio_21_dlc_xm17.RPF''], False),
        ([''GTAV'', ''update'', ''x64'', ''dlcpacks'', ''patch2'', ''RADIO_21_DLC_XM17.rpf''], True)]"
  by code_simp

lemma extract_rpf_keeps_dir:
  assumes "is_dir (fs s) d"
  shows "is_dir (fs (snd (extract_rpf sp rp inp (d @ [x]) s))) d"
proof -
  from assms obtain es where es: "lookup (fs s) d = Some (Dir es)" by (auto simp: is_dir_lookup)
  show ?thesis
  proof (cases "sp (fs s) (Cmd rp (d @ [x]) inp)")
    case LaunchFailed
    with assms show ?thesis by (simp add: extract_rpf_fs)
  next
    case (Exited code w)
    show ?thesis
    proof (cases w)
      case None
      with Exited assms show ?thesis by (simp add: extract_rpf_fs)
    next
      case (Some n)
      from put_in_dir[OF es] obtain t' where p: "put (fs s) (d @ [x]) n = Some t'" by blast
      from put_child_keeps_dir[OF es p] Exited Some p show ?thesis
        by (simp add: extract_rpf_fs is_dir_lookup)
    qed
  qed
qed

lemma base_file_keeps_dir:
  "is_dir (fs s) temp_extract_dir \<Longrightarrow> is_dir (fs (base_file E rp base x s)) temp_extract_dir"
  by (simp add: base_file_def Let_def extract_rpf_keeps_dir)

lemma extract_base_keeps_dir:
  assumes "is_dir (fs s) temp_extract_dir"
  shows "is_dir (fs (extract_base E rp gta s)) temp_extract_dir"
proof -
  have "is_dir (fs (fold (base_file E rp base) ks s)) temp_extract_dir" for base ks
    using assms by (induction ks arbitrary: s) (simp_all add: base_file_keeps_dir)
  with assms show ?thesis by (simp add: extract_base_def Let_def)
qed

text \<open>The scan in \<open>main\<close> starts with the temporary directory being a directory.\<close>

lemma scan_starts_in_directory:
  assumes "mkdir False False t5 temp_extract_dir = Inr t6"
  shows "is_dir (fs (extract_base E rp gta (print ScanningForRadio (s\<lparr>fs := t6\<rparr>))))
           temp_extract_dir"
proof -
  from assms have "put t5 temp_extract_dir (Dir []) = Some t6"
    by (simp add: mkdir_def split: if_splits option.splits)
  from lookup_put_same[OF this] have "is_dir (fs (print ScanningForRadio (s\<lparr>fs := t6\<rparr>))) temp_extract_dir"
    by (simp add: is_dir_def)
  then show ?thesis by (rule extract_base_keeps_dir)
qed

section \<open>The temporary directory\<close>

text \<open>
  A run that comes to its end removes the temporary directory it made, also when
  conversions failed with an exit status.
\<close>

lemma cleanup_removes:
  assumes "cleanup (Some d) s = Inr ((), s')" and "d \<noteq> []"
  shows "\<not> exists (fs s') d"
proof (cases "exists (fs s) d")
  case False
  with assms show ?thesis by (simp add: cleanup_def)
next
  case True
  with assms(1) have "fs s' = remove (fs s) d"
    by (auto simp: cleanup_def rmtree_def print_def split: option.splits node.splits sum.splits)
  with assms(2) show ?thesis by (simp add: exists_def lookup_remove_same)
qed

lemma run_removes_temp:
  assumes r: "resolve_input E a s = Inr (Some (d, Some d), s1)"
    and e: "run E a s = Inr ((), s')" and d: "d \<noteq> []"
  shows "\<not> exists (fs s') d"
proof (cases "exists (fs s1) d")
  case False
  with r e show ?thesis by (auto simp: run_def print_def)
next
  case True
  with r e obtain s2 s3 where "cleanup (Some d) s2 = Inr ((), s3)" and "fs s' = fs s3"
    by (auto simp: run_def print_def Let_def split: sum.splits)
  with cleanup_removes[OF _ d] show ?thesis by simp
qed

lemma temp_dir_removed_example:
  "map_sum fst fst (main \<lparr>subprocess = (\<lambda>t c. if exe c = ''rpf-cli''
                                      then Exited 0 (Some (Dir [(''song.awc'', File ''awc'')]))
                                      else Exited 1 None),
              registry_steam_path = Some [''Steam''], Path = (\<lambda>x. [x])\<rparr>
        \<lparr>arg_input = None, arg_output = [''out''], vgmstream = ''vgmstream'',
         rpf_cli = Some ''rpf-cli'', auto_detect = True\<rparr>
        \<lparr>fs = Dir [(''Steam'', Dir [(''steamapps'', Dir [
                 (''appmanifest_271590.acf'', File (''\"installdir\" \"GTAV\"'')),
                 (''common'', Dir [(''GTAV'', Dir [(''x64'', Dir [(''audio'', Dir [(''sfx'',
                     Dir [(''RADIO_02_POP.rpf'', File ''rpf'')])])])])])])])],
         trace = []\<rparr>) = Inr ()
   \<and> lookup (fs (final (main \<lparr>subprocess = (\<lambda>t c. if exe c = ''rpf-cli''
                                      then Exited 0 (Some (Dir [(''song.awc'', File ''awc'')]))
                                      else Exited 1 None),
              registry_steam_path = Some [''Steam''], Path = (\<lambda>x. [x])\<rparr>
        \<lparr>arg_input = None, arg_output = [''out''], vgmstream = ''vgmstream'',
         rpf_cli = Some ''rpf-cli'', auto_detect = True\<rparr>
        \<lparr>fs = Dir [(''Steam'', Dir [(''steamapps'', Dir [
                 (''appmanifest_271590.acf'', File (''\"installdir\" \"GTAV\"'')),
                 (''common'', Dir [(''GTAV'', Dir [(''x64'', Dir [(''audio'', Dir [(''sfx'',
                     Dir [(''RADIO_02_POP.rpf'', File ''rpf'')])])])])])])])],
         trace = []\<rparr>))) temp_extract_dir
     = None"
  by code_simp

text \<open>
  C3. The clean-up stands behind the loop over the stations and is not reached when
  the loop raises. With a transcoder that cannot be launched (the exception
  \<open>convert_awc\<close> does not catch, see C2) the run made the temporary directory,
  extracted one station into it, and ends with the exception and the directory still
  there.
\<close>

theorem C3_temp_dir_left_behind:
  "map_sum fst fst (main \<lparr>subprocess = (\<lambda>t c. if exe c = ''rpf-cli''
                                      then Exited 0 (Some (Dir [(''song.awc'', File ''awc'')]))
                                      else LaunchFailed),
              registry_steam_path = Some [''Steam''], Path = (\<lambda>x. [x])\<rparr>
        \<lparr>arg_input = None, arg_output = [''out''], vgmstream = ''vgmstream'',
         rpf_cli = Some ''rpf-cli'', auto_detect = True\<rparr>
        \<lparr>fs = Dir [(''Steam'', Dir [(''steamapps'', Dir [
                 (''appmanifest_271590.acf'', File (''\"installdir\" \"GTAV\"'')),
                 (''common'', Dir [(''GTAV'', Dir [(''x64'', Dir [(''audio'', Dir [(''sfx'',
                     Dir [(''RADIO_02_POP.rpf'', File ''rpf'')])])])])])])])],
         trace = []\<rparr>) = Inl OSError
   \<and> lookup (fs (final (main \<lparr>subprocess = (\<lambda>t c. if exe c = ''rpf-cli''
                                      then Exited 0 (Some (Dir [(''song.awc'', File ''awc'')]))
                                      else LaunchFailed),
              registry_steam_path = Some [''Steam''], Path = (\<lambda>x. [x])\<rparr>
        \<lparr>arg_input = None, arg_output = [''out''], vgmstream = ''vgmstream'',
         rpf_cli = Some ''rpf-cli'', auto_detect = True\<rparr>
        \<lparr>fs = Dir [(''Steam'', Dir [(''steamapps'', Dir [
                 (''appmanifest_271590.acf'', File (''\"installdir\" \"GTAV\"'')),
                 (''common'', Dir [(''GTAV'', Dir [(''x64'', Dir [(''audio'', Dir [(''sfx'',
                     Dir [(''RADIO_02_POP.rpf'', File ''rpf'')])])])])])])])],
         trace = []\<rparr>))) temp_extract_dir
     = Some (Dir [(''RADIO_02_POP'', Dir [(''song.awc'', File ''awc'')])])"
  by code_simp

section \<open>The group's metadata file\<close>
































end
